theory Spec2Isabelle
  imports Complex_Main "HOL-Library.Log_Nat"
begin

section \<open>Data model (types.ts)\<close>

text \<open>
  Numbers. The relationship engine and the rectangle arithmetic are modelled over exact
  reals: every coordinate, size, ratio and tolerance is a finite number and arithmetic
  does not round. What is proved there rests on the order of the checks and on
  comparisons. Clamping to the viewport is modelled a second time, further down, in
  IEEE 754 binary64, the arithmetic of a JavaScript \<open>number\<close>, for the property that
  depends on rounding.

  The record fields carry a prefix (\<open>box_x\<close> for \<open>x\<close> of a \<open>BoundingBox\<close>, \<open>vp_width\<close>
  for \<open>width\<close> of a \<open>ViewportSize\<close>) because the two interfaces share the names
  \<open>width\<close> and \<open>height\<close>.
\<close>

record ViewportSize =
  vp_width :: real
  vp_height :: real

record BoundingBox =
  box_x :: real
  box_y :: real
  box_width :: real
  box_height :: real

text \<open>\<open>PageLike.viewportSize()\<close> yields a size or \<open>null\<close>.\<close>

record PageLike =
  viewportSize :: "ViewportSize option"

text \<open>
  What the optional method \<open>scrollIntoViewIfNeeded\<close> does when it is called: its promise
  resolves, or it rejects (a timeout included).
\<close>

datatype ScrollOutcome = ScrollResolves | ScrollRejects

text \<open>
  A \<open>LocatorLike\<close> is modelled by what its methods answer during one query:
  \<open>boundingBox()\<close> resolves to a box or \<open>null\<close>; \<open>page\<close> is \<open>None\<close> when the method is
  missing or returns \<open>undefined\<close>; \<open>scrollIntoViewIfNeeded\<close> is \<open>None\<close> when the
  locator has no such method.
\<close>

record LocatorLike =
  boundingBox :: "BoundingBox option"
  page :: "PageLike option"
  scrollIntoViewIfNeeded :: "ScrollOutcome option"

datatype Direction = Left | Right | Above | Below

datatype Order = LeftToRight | RightToLeft | TopToBottom | BottomToTop

text \<open>
  The two assertion helpers throw an \<open>Error\<close> whose message holds the label and the
  value received; the error value keeps both.
\<close>

datatype error = NotRatio01 string real | NotNonNegative string real

definition assertRatio01 :: "real \<Rightarrow> string \<Rightarrow> error + unit" where
  "assertRatio01 v label =
     (if \<not> (v \<ge> 0 \<and> v \<le> 1) then Inl (NotRatio01 label v) else Inr ())"

definition assertNonNegative :: "real \<Rightarrow> string \<Rightarrow> error + unit" where
  "assertNonNegative v label =
     (if v < 0 then Inl (NotNonNegative label v) else Inr ())"

section \<open>Rectangle arithmetic (geometry.ts)\<close>

definition area :: "BoundingBox \<Rightarrow> real" where
  "area b = max 0 (box_width b) * max 0 (box_height b)"

definition right :: "BoundingBox \<Rightarrow> real" where
  "right b = box_x b + box_width b"

definition bottom :: "BoundingBox \<Rightarrow> real" where
  "bottom b = box_y b + box_height b"

definition clampVisible :: "real \<Rightarrow> real \<Rightarrow> BoundingBox \<Rightarrow> BoundingBox" where
  "clampVisible viewW viewH b =
     (let x1 = max 0 (box_x b);
          y1 = max 0 (box_y b);
          x2 = min (right b) (max 0 viewW);
          y2 = min (bottom b) (max 0 viewH)
      in \<lparr>box_x = x1, box_y = y1, box_width = max 0 (x2 - x1), box_height = max 0 (y2 - y1)\<rparr>)"

definition overlapLen :: "real \<Rightarrow> real \<Rightarrow> real \<Rightarrow> real \<Rightarrow> real" where
  "overlapLen a1 a2 b1 b2 = max 0 (min a2 b2 - max a1 b1)"

definition overlapRatio1D :: "real \<Rightarrow> real \<Rightarrow> real \<Rightarrow> real \<Rightarrow> real" where
  "overlapRatio1D a1 a2 b1 b2 =
     (let ov = overlapLen a1 a2 b1 b2;
          len = min (a2 - a1) (b2 - b1)
      in if len > 0 then ov / len else 0)"

definition intersect :: "BoundingBox \<Rightarrow> BoundingBox \<Rightarrow> BoundingBox" where
  "intersect a b =
     (let x1 = max (box_x a) (box_x b);
          y1 = max (box_y a) (box_y b);
          x2 = min (right a) (right b);
          y2 = min (bottom a) (bottom b)
      in \<lparr>box_x = x1, box_y = y1, box_width = max 0 (x2 - x1), box_height = max 0 (y2 - y1)\<rparr>)"

section \<open>Relationship engine (main.ts)\<close>

text \<open>
  The comparison helpers. Their third parameter defaults to 0 in the source; every call
  modelled here passes it. \<open>within\<close> is named \<open>within_tol\<close> because \<open>within\<close> is
  reserved syntax of the analysis library.
\<close>

definition ge :: "real \<Rightarrow> real \<Rightarrow> real \<Rightarrow> bool" where
  "ge a b tol = (a + tol \<ge> b)"

definition le :: "real \<Rightarrow> real \<Rightarrow> real \<Rightarrow> bool" where
  "le a b tol = (a \<le> b + tol)"

definition within_tol :: "real \<Rightarrow> real \<Rightarrow> real \<Rightarrow> bool" where
  "within_tol v t tol = (\<bar>v - t\<bar> \<le> tol)"

text \<open>
  Optional properties of an options object are \<open>option\<close> fields: \<open>None\<close> is a property
  that is missing or \<open>undefined\<close>. \<open>or_default\<close> is the source's \<open>??\<close> and its
  destructuring default.
\<close>

definition or_default :: "'a option \<Rightarrow> 'a \<Rightarrow> 'a" where
  "or_default v d = (case v of None \<Rightarrow> d | Some a \<Rightarrow> a)"

record IsInViewportOptions =
  fullyVisible :: "bool option"
  threshold :: "real option"
  padding :: "real option"
  scrollIntoView :: "bool option"

datatype Logical = Start | End

datatype WritingDirection = Ltr | Rtl

record RelativeOptions =
  overlapRatio :: "real option"
  gap :: "real option"
  tolerance :: "real option"
  logical :: "Logical option"
  writingDirection :: "WritingDirection option"

datatype Axis = AxisX | AxisY

datatype Mode = Edges | Centers

text \<open>The field \<open>tolerance\<close> of \<open>AlignOptions\<close> is \<open>align_tolerance\<close> here.\<close>

record AlignOptions =
  axis :: Axis
  mode :: Mode
  align_tolerance :: "real option"

text \<open>
  \<open>mapLogical\<close>: the inner \<open>default\<close> branch of the source cannot be reached, since
  \<open>logical\<close> is \<open>'start'\<close> or \<open>'end'\<close> once it is present.
\<close>

definition mapLogical :: "Direction \<Rightarrow> RelativeOptions \<Rightarrow> Direction" where
  "mapLogical direction opts =
     (case logical opts of
        None \<Rightarrow> direction
      | Some lg \<Rightarrow>
          (let writing = or_default (writingDirection opts) Ltr
           in case direction of
                Left \<Rightarrow> (case lg of
                            Start \<Rightarrow> if writing = Rtl then Right else Left
                          | End \<Rightarrow> if writing = Rtl then Left else Right)
              | Right \<Rightarrow> (case lg of
                            Start \<Rightarrow> if writing = Rtl then Right else Left
                          | End \<Rightarrow> if writing = Rtl then Left else Right)
              | Above \<Rightarrow> direction
              | Below \<Rightarrow> direction))"

text \<open>
  The viewport a locator gives: \<open>locator.page?.()\<close>, then \<open>page.viewportSize()\<close> when
  there is a page, \<open>null\<close> otherwise.
\<close>

definition viewport_of :: "LocatorLike \<Rightarrow> ViewportSize option" where
  "viewport_of locator =
     (case page locator of None \<Rightarrow> None | Some p \<Rightarrow> viewportSize p)"

text \<open>
  \<open>isInViewport\<close>, in the order of the source: the optional scroll, whose rejection is
  caught and answered with \<open>false\<close>; the measurement of the box; the viewport; the two
  option checks, which throw; the padded viewport; the two modes.
\<close>

definition isInViewport :: "LocatorLike \<Rightarrow> IsInViewportOptions \<Rightarrow> error + bool" where
  "isInViewport locator options =
     (let fully = or_default (fullyVisible options) False;
          thr = or_default (threshold options) 0;
          pad = or_default (padding options) 0;
          scroll = or_default (scrollIntoView options) False
      in if scroll \<and> scrollIntoViewIfNeeded locator = Some ScrollRejects then Inr False
         else
           (case boundingBox locator of
              None \<Rightarrow> Inr False
            | Some box \<Rightarrow>
                if area box \<le> 0 then Inr False
                else
                  (case viewport_of locator of
                     None \<Rightarrow> Inr False
                   | Some viewport \<Rightarrow>
                       (case assertNonNegative pad ''padding'' of
                          Inl e \<Rightarrow> Inl e
                        | Inr _ \<Rightarrow>
                            (case (if \<not> fully then assertRatio01 thr ''threshold''
                                   else Inr ()) of
                               Inl e \<Rightarrow> Inl e
                             | Inr _ \<Rightarrow>
                                 (let vpW = vp_width viewport - pad * 2;
                                      vpH = vp_height viewport - pad * 2
                                  in if vpW \<le> 0 \<or> vpH \<le> 0 then Inr False
                                     else
                                       (let shifted = \<lparr>box_x = box_x box - pad,
                                                       box_y = box_y box - pad,
                                                       box_width = box_width box,
                                                       box_height = box_height box\<rparr>;
                                            visible = clampVisible vpW vpH shifted
                                        in if fully
                                           then Inr (box_x box \<ge> pad \<and>
                                                     box_y box \<ge> pad \<and>
                                                     right box \<le> vp_width viewport - pad \<and>
                                                     bottom box \<le> vp_height viewport - pad)
                                           else Inr (area visible / area box \<ge> thr))))))))"

definition visibleAreaRatio :: "LocatorLike \<Rightarrow> real" where
  "visibleAreaRatio locator =
     (case (boundingBox locator, viewport_of locator) of
        (Some box, Some viewport) \<Rightarrow>
          if area box = 0 then 0
          else (let vis = clampVisible (vp_width viewport) (vp_height viewport) box
                in min 1 (max 0 (area vis / area box)))
      | _ \<Rightarrow> 0)"

text \<open>
  \<open>relativePosition\<close>: the checks of \<open>gap\<close> and \<open>overlapRatio\<close> come first and only
  when the property is present; then both boxes are measured.
\<close>

definition relativePosition ::
    "LocatorLike \<Rightarrow> LocatorLike \<Rightarrow> Direction \<Rightarrow> RelativeOptions \<Rightarrow> error + bool" where
  "relativePosition firstElement secondElement direction options =
     (let tol = or_default (tolerance options) 0
      in case (case gap options of None \<Rightarrow> Inr () | Some g \<Rightarrow> assertNonNegative g ''gap'') of
           Inl e \<Rightarrow> Inl e
         | Inr _ \<Rightarrow>
             (case (case overlapRatio options of
                      None \<Rightarrow> Inr ()
                    | Some r \<Rightarrow> assertRatio01 r ''overlapRatio'') of
                Inl e \<Rightarrow> Inl e
              | Inr _ \<Rightarrow>
                  (case (boundingBox firstElement, boundingBox secondElement) of
                     (Some A, Some B) \<Rightarrow>
                       (let gp = or_default (gap options) 0;
                            needOv = or_default (overlapRatio options) 0;
                            dir = mapLogical direction options
                        in case dir of
                             Left \<Rightarrow>
                               (let ordering = le (right A) (box_x B - gp) tol;
                                    vOv = overlapRatio1D (box_y A) (bottom A) (box_y B) (bottom B)
                                in Inr (ordering \<and> vOv + tol \<ge> needOv))
                           | Right \<Rightarrow>
                               (let ordering = ge (box_x A) (right B + gp) (- tol);
                                    vOv = overlapRatio1D (box_y A) (bottom A) (box_y B) (bottom B)
                                in Inr (ordering \<and> vOv + tol \<ge> needOv))
                           | Above \<Rightarrow>
                               (let ordering = le (bottom A) (box_y B - gp) tol;
                                    hOv = overlapRatio1D (box_x A) (right A) (box_x B) (right B)
                                in Inr (ordering \<and> hOv + tol \<ge> needOv))
                           | Below \<Rightarrow>
                               (let ordering = ge (box_y A) (bottom B + gp) (- tol);
                                    hOv = overlapRatio1D (box_x A) (right A) (box_x B) (right B)
                                in Inr (ordering \<and> hOv + tol \<ge> needOv)))
                   | _ \<Rightarrow> Inr False)))"

definition areAligned :: "LocatorLike \<Rightarrow> LocatorLike \<Rightarrow> AlignOptions \<Rightarrow> bool" where
  "areAligned firstElement secondElement options =
     (let tol = or_default (align_tolerance options) 1
      in case (boundingBox firstElement, boundingBox secondElement) of
           (Some A, Some B) \<Rightarrow>
             (case axis options of
                AxisX \<Rightarrow>
                  if mode options = Edges
                  then within_tol (box_y A) (box_y B) tol \<and> within_tol (bottom A) (bottom B) tol
                  else within_tol (box_y A + box_height A / 2) (box_y B + box_height B / 2) tol
              | AxisY \<Rightarrow>
                  if mode options = Edges
                  then within_tol (box_x A) (box_x B) tol \<and> within_tol (right A) (right B) tol
                  else within_tol (box_x A + box_width A / 2) (box_x B + box_width B / 2) tol)
         | _ \<Rightarrow> False)"

text \<open>\<open>edgeDistance\<close>: \<open>None\<close> is the source's \<open>null\<close>.\<close>

definition edgeDistance :: "LocatorLike \<Rightarrow> LocatorLike \<Rightarrow> Direction \<Rightarrow> real option" where
  "edgeDistance firstElement secondElement direction =
     (case (boundingBox firstElement, boundingBox secondElement) of
        (Some A, Some B) \<Rightarrow>
          (case direction of
             Left \<Rightarrow> Some (box_x B - right A)
           | Right \<Rightarrow> Some (box_x A - right B)
           | Above \<Rightarrow> Some (box_y B - bottom A)
           | Below \<Rightarrow> Some (box_y A - bottom B))
      | _ \<Rightarrow> None)"

text \<open>
  The four loops of \<open>inOrder\<close> have one shape: walk \<open>i\<close> from 1, test the pair
  \<open>(b[i - 1], b[i])\<close>, return \<open>false\<close> at the first pair that fails and \<open>true\<close> after the
  last. \<open>adjacent_ok\<close> is that loop for a given test.
\<close>

fun adjacent_ok :: "(BoundingBox \<Rightarrow> BoundingBox \<Rightarrow> bool) \<Rightarrow> BoundingBox list \<Rightarrow> bool" where
  "adjacent_ok ok (p # n # bs) = (if \<not> ok p n then False else adjacent_ok ok (n # bs))"
| "adjacent_ok ok bs = True"

text \<open>\<open>measured\<close> collects the boxes when none is \<open>null\<close>.\<close>

fun measured :: "BoundingBox option list \<Rightarrow> BoundingBox list option" where
  "measured [] = Some []"
| "measured (None # bs) = None"
| "measured (Some b # bs) = (case measured bs of None \<Rightarrow> None | Some r \<Rightarrow> Some (b # r))"

text \<open>\<open>inOrder\<close>: the parameter \<open>tolerance\<close> defaults to 0 when it is not passed.\<close>

definition inOrder :: "LocatorLike list \<Rightarrow> Order \<Rightarrow> real option \<Rightarrow> bool" where
  "inOrder locators order' tolerance' =
     (let tol = or_default tolerance' 0
      in case measured (map boundingBox locators) of
           None \<Rightarrow> False
         | Some b \<Rightarrow>
             (case order' of
                LeftToRight \<Rightarrow> adjacent_ok (\<lambda>p n. le (right p) (box_x n) tol) b
              | RightToLeft \<Rightarrow> adjacent_ok (\<lambda>p n. ge (box_x p) (right n) (- tol)) b
              | TopToBottom \<Rightarrow> adjacent_ok (\<lambda>p n. le (bottom p) (box_y n) tol) b
              | BottomToTop \<Rightarrow> adjacent_ok (\<lambda>p n. ge (box_y p) (bottom n) (- tol)) b))"

definition intersectionAreaRatio :: "LocatorLike \<Rightarrow> LocatorLike \<Rightarrow> real" where
  "intersectionAreaRatio firstElement secondElement =
     (case (boundingBox firstElement, boundingBox secondElement) of
        (Some A, Some B) \<Rightarrow>
          if area A = 0 then 0
          else min 1 (max 0 (area (intersect A B) / area A))
      | _ \<Rightarrow> 0)"

section \<open>Clamping in binary64 (geometry.ts)\<close>

text \<open>
  A JavaScript \<open>number\<close> is a binary64 value: a finite number, an infinity or \<open>NaN\<close>.
  The two zeros are one value here; no operation below tells them apart.
\<close>

datatype float64 = Finite real | PosInf | NegInf | NaN

text \<open>
  Rounding to nearest, ties to even. \<open>binade a\<close> is the exponent \<open>e\<close> with
  \<open>2^e \<le> a < 2^(e + 1)\<close> for a positive \<open>a\<close>; below \<open>2^-1022\<close> the exponent stays at
  \<open>-1022\<close> (subnormal numbers). The spacing of the numbers around \<open>r\<close> is
  \<open>q = 2^(e - 52)\<close>, and \<open>r\<close> is rounded to the nearest multiple of \<open>q\<close>. A result
  of magnitude \<open>2^1024\<close> is an infinity.
\<close>

definition pow2 :: "int \<Rightarrow> real" where
  "pow2 k = (if 0 \<le> k then 2 ^ nat k else 1 / 2 ^ nat (- k))"

definition binade :: "real \<Rightarrow> int" where
  "binade a = (if 1 \<le> a then bitlen \<lfloor>a\<rfloor> - 1 else - bitlen (\<lceil>1 / a\<rceil> - 1))"

definition round_even :: "real \<Rightarrow> int" where
  "round_even t =
     (let f = \<lfloor>t\<rfloor>; d = t - of_int f
      in if d < 1 / 2 then f
         else if 1 / 2 < d then f + 1
         else if even f then f else f + 1)"

definition fl64 :: "real \<Rightarrow> float64" where
  "fl64 r =
     (if r = 0 then Finite 0
      else
        (let e = max (binade \<bar>r\<bar>) (- 1022);
             q = pow2 (e - 52);
             v = of_int (round_even (r / q)) * q
         in if 2 ^ 1024 \<le> v then PosInf
            else if v \<le> - (2 ^ 1024) then NegInf
            else Finite v))"

text \<open>A real number is representable when rounding leaves it unchanged.\<close>

definition representable :: "real \<Rightarrow> bool" where
  "representable r = (fl64 r = Finite r)"

text \<open>
  Addition, subtraction, \<open>Math.max\<close> and \<open>Math.min\<close> on binary64 values: a finite sum
  or difference is rounded; \<open>NaN\<close> is contagious; opposite infinities add up to \<open>NaN\<close>.
\<close>

fun add64 :: "float64 \<Rightarrow> float64 \<Rightarrow> float64" where
  "add64 (Finite a) (Finite b) = fl64 (a + b)"
| "add64 NaN b = NaN"
| "add64 a NaN = NaN"
| "add64 PosInf NegInf = NaN"
| "add64 NegInf PosInf = NaN"
| "add64 PosInf b = PosInf"
| "add64 a PosInf = PosInf"
| "add64 NegInf b = NegInf"
| "add64 a NegInf = NegInf"

fun sub64 :: "float64 \<Rightarrow> float64 \<Rightarrow> float64" where
  "sub64 (Finite a) (Finite b) = fl64 (a - b)"
| "sub64 NaN b = NaN"
| "sub64 a NaN = NaN"
| "sub64 PosInf PosInf = NaN"
| "sub64 NegInf NegInf = NaN"
| "sub64 PosInf b = PosInf"
| "sub64 a PosInf = NegInf"
| "sub64 NegInf b = NegInf"
| "sub64 a NegInf = PosInf"

fun max64 :: "float64 \<Rightarrow> float64 \<Rightarrow> float64" where
  "max64 (Finite a) (Finite b) = Finite (max a b)"
| "max64 NaN b = NaN"
| "max64 a NaN = NaN"
| "max64 PosInf b = PosInf"
| "max64 a PosInf = PosInf"
| "max64 NegInf b = b"
| "max64 a NegInf = a"

fun min64 :: "float64 \<Rightarrow> float64 \<Rightarrow> float64" where
  "min64 (Finite a) (Finite b) = Finite (min a b)"
| "min64 NaN b = NaN"
| "min64 a NaN = NaN"
| "min64 NegInf b = NegInf"
| "min64 a NegInf = NegInf"
| "min64 PosInf b = b"
| "min64 a PosInf = a"

text \<open>\<open>right\<close>, \<open>bottom\<close> and \<open>clampVisible\<close> once more, with these operations.\<close>

record BoundingBox64 =
  box64_x :: float64
  box64_y :: float64
  box64_width :: float64
  box64_height :: float64

definition right64 :: "BoundingBox64 \<Rightarrow> float64" where
  "right64 b = add64 (box64_x b) (box64_width b)"

definition bottom64 :: "BoundingBox64 \<Rightarrow> float64" where
  "bottom64 b = add64 (box64_y b) (box64_height b)"

definition clampVisible64 :: "float64 \<Rightarrow> float64 \<Rightarrow> BoundingBox64 \<Rightarrow> BoundingBox64" where
  "clampVisible64 viewW viewH b =
     (let x1 = max64 (Finite 0) (box64_x b);
          y1 = max64 (Finite 0) (box64_y b);
          x2 = min64 (right64 b) (max64 (Finite 0) viewW);
          y2 = min64 (bottom64 b) (max64 (Finite 0) viewH)
      in \<lparr>box64_x = x1, box64_y = y1,
          box64_width = max64 (Finite 0) (sub64 x2 x1),
          box64_height = max64 (Finite 0) (sub64 y2 y1)\<rparr>)"

section \<open>Properties of the rectangle arithmetic\<close>

lemma overlapLen_nonneg: "0 \<le> overlapLen a1 a2 b1 b2"
  by (simp add: overlapLen_def)

lemma overlapRatio1D_nonneg: "0 \<le> overlapRatio1D a1 a2 b1 b2"
  by (simp add: overlapRatio1D_def Let_def overlapLen_nonneg)

text \<open>
  In exact arithmetic clamping to the viewport is idempotent, for all viewport dimensions
  and every rectangle, negative coordinates and negative dimensions included.
\<close>

lemma clampVisible_idempotent_exact:
  "clampVisible w h (clampVisible w h r) = clampVisible w h r"
  by (simp add: clampVisible_def Let_def right_def bottom_def min_def max_def)

text \<open>
  Claim C9. Clamping to the viewport is the intersection with the viewport rectangle
  whose origin is \<open>(0, 0)\<close> and whose dimensions are floored at 0: the two primitives give
  the same rectangle on every input, degenerate and off-screen rectangles included.
\<close>

theorem clampVisible_is_intersect:
  "clampVisible w h r =
     intersect r \<lparr>box_x = 0, box_y = 0, box_width = max 0 w, box_height = max 0 h\<rparr>"
  by (simp add: clampVisible_def intersect_def Let_def right_def bottom_def max.commute)

section \<open>Helper facts\<close>

lemma mapLogical_unset: "logical opts = None \<Longrightarrow> mapLogical d opts = d"
  by (simp add: mapLogical_def)

lemma mapLogical_horizontal: "logical opts \<noteq> None \<Longrightarrow> mapLogical Left opts = mapLogical Right opts"
  by (auto simp: mapLogical_def Let_def split: option.splits)

lemma mapLogical_vertical: "mapLogical Above opts = Above" "mapLogical Below opts = Below"
  by (simp_all add: mapLogical_def Let_def split: option.splits)

text \<open>The two option checks of \<open>relativePosition\<close> pass on valid options.\<close>

lemma gap_check_valid:
  "\<forall>g. gap opts = Some g \<longrightarrow> 0 \<le> g \<Longrightarrow>
   (case gap opts of None \<Rightarrow> Inr () | Some g \<Rightarrow> assertNonNegative g ''gap'') = Inr ()"
  by (cases "gap opts") (simp_all add: assertNonNegative_def)

lemma overlapRatio_check_valid:
  "\<forall>r. overlapRatio opts = Some r \<longrightarrow> 0 \<le> r \<and> r \<le> 1 \<Longrightarrow>
   (case overlapRatio opts of None \<Rightarrow> Inr () | Some r \<Rightarrow> assertRatio01 r ''overlapRatio'')
     = Inr ()"
  by (cases "overlapRatio opts") (simp_all add: assertRatio01_def)

text \<open>The loop of \<open>inOrder\<close> tests every pair of neighbours.\<close>

lemma adjacent_ok_iff:
  "adjacent_ok ok bs = (\<forall>i. Suc i < length bs \<longrightarrow> ok (bs ! i) (bs ! Suc i))"
proof (induction ok bs rule: adjacent_ok.induct)
  case (1 ok p n bs)
  show ?case
  proof
    assume a: "adjacent_ok ok (p # n # bs)"
    then have "ok p n" and "adjacent_ok ok (n # bs)"
      by (simp_all split: if_splits)
    with 1 have r: "\<forall>i. Suc i < length (n # bs) \<longrightarrow> ok ((n # bs) ! i) ((n # bs) ! Suc i)"
      by simp
    show "\<forall>i. Suc i < length (p # n # bs) \<longrightarrow> ok ((p # n # bs) ! i) ((p # n # bs) ! Suc i)"
    proof (intro allI impI)
      fix i assume "Suc i < length (p # n # bs)"
      then show "ok ((p # n # bs) ! i) ((p # n # bs) ! Suc i)"
        using r \<open>ok p n\<close> by (cases i) auto
    qed
  next
    assume a: "\<forall>i. Suc i < length (p # n # bs) \<longrightarrow> ok ((p # n # bs) ! i) ((p # n # bs) ! Suc i)"
    from a[rule_format, of 0] have "ok p n" by simp
    have "\<forall>i. Suc i < length (n # bs) \<longrightarrow> ok ((n # bs) ! i) ((n # bs) ! Suc i)"
    proof (intro allI impI)
      fix i assume "Suc i < length (n # bs)"
      then show "ok ((n # bs) ! i) ((n # bs) ! Suc i)"
        using a[rule_format, of "Suc i"] by simp
    qed
    with 1 \<open>ok p n\<close> show "adjacent_ok ok (p # n # bs)" by simp
  qed
qed simp_all

lemma measured_map_Some: "measured (map Some bs) = Some bs"
  by (induction bs) simp_all

lemma measured_None_iff: "measured bs = None \<longleftrightarrow> None \<in> set bs"
  by (induction bs rule: measured.induct) (auto split: option.splits)

section \<open>Relative position\<close>

text \<open>
  Claim C1. When both rectangles \<open>A\<close> (subject) and \<open>B\<close> (reference) are measured, no
  logical mapping is asked for, \<open>gap\<close> is not negative and \<open>overlapRatio\<close> lies in
  \<open>[0, 1]\<close>, \<open>relativePosition\<close> with direction \<open>left\<close> raises nothing and returns
  true if and only if \<open>right A \<le> B.x - gap + tolerance\<close> and the overlap ratio of the two
  y-intervals plus the tolerance is at least \<open>overlapRatio\<close>. The sign of the tolerance
  plays no part, so the theorem holds for every tolerance.
\<close>

theorem relativePosition_left_iff:
  assumes "boundingBox a = Some A" and "boundingBox b = Some B"
    and "logical opts = None"
    and "\<forall>g. gap opts = Some g \<longrightarrow> 0 \<le> g"
    and "\<forall>r. overlapRatio opts = Some r \<longrightarrow> 0 \<le> r \<and> r \<le> 1"
  shows "relativePosition a b Left opts =
           Inr (right A \<le> box_x B - or_default (gap opts) 0 + or_default (tolerance opts) 0 \<and>
                overlapRatio1D (box_y A) (bottom A) (box_y B) (bottom B)
                  + or_default (tolerance opts) 0 \<ge> or_default (overlapRatio opts) 0)"
proof -
  have g: "(case gap opts of None \<Rightarrow> Inr () | Some g \<Rightarrow> assertNonNegative g ''gap'') = Inr ()"
    using assms(4) by (cases "gap opts") (simp_all add: assertNonNegative_def)
  have r: "(case overlapRatio opts of None \<Rightarrow> Inr ()
            | Some r \<Rightarrow> assertRatio01 r ''overlapRatio'') = Inr ()"
    using assms(5) by (cases "overlapRatio opts") (simp_all add: assertRatio01_def)
  show ?thesis
    unfolding relativePosition_def g r
    by (simp add: assms(1,2) mapLogical_unset[OF assms(3)] le_def Let_def)
qed

theorem relativePosition_left_iff_witness:
  "relativePosition
     \<lparr>boundingBox = Some \<lparr>box_x = 20, box_y = 20, box_width = 80, box_height = 50\<rparr>,
      page = None, scrollIntoViewIfNeeded = None\<rparr>
     \<lparr>boundingBox = Some \<lparr>box_x = 130, box_y = 20, box_width = 80, box_height = 50\<rparr>,
      page = None, scrollIntoViewIfNeeded = None\<rparr>
     Left
     \<lparr>overlapRatio = Some (9 / 10), gap = Some 10, tolerance = Some 1, logical = None,
      writingDirection = None\<rparr> = Inr True"
  using relativePosition_left_iff
    [of "\<lparr>boundingBox = Some \<lparr>box_x = 20, box_y = 20, box_width = 80, box_height = 50\<rparr>,
          page = None, scrollIntoViewIfNeeded = None\<rparr>"
        "\<lparr>box_x = 20, box_y = 20, box_width = 80, box_height = 50\<rparr>"
        "\<lparr>boundingBox = Some \<lparr>box_x = 130, box_y = 20, box_width = 80, box_height = 50\<rparr>,
          page = None, scrollIntoViewIfNeeded = None\<rparr>"
        "\<lparr>box_x = 130, box_y = 20, box_width = 80, box_height = 50\<rparr>"
        "\<lparr>overlapRatio = Some (9 / 10), gap = Some 10, tolerance = Some 1, logical = None,
          writingDirection = None\<rparr>"]
  by (simp add: right_def bottom_def overlapRatio1D_def overlapLen_def or_default_def)

text \<open>
  What the code computes for \<open>right\<close> under the same conditions: the tolerance enters the
  ordering test through \<open>ge _ _ (- tol)\<close>, so the subject has to start at least
  \<open>gap + tolerance\<close> past the right edge of the reference.
\<close>

lemma relativePosition_right_measured:
  assumes "boundingBox a = Some A" and "boundingBox b = Some B"
    and "logical opts = None"
    and "\<forall>g. gap opts = Some g \<longrightarrow> 0 \<le> g"
    and "\<forall>r. overlapRatio opts = Some r \<longrightarrow> 0 \<le> r \<and> r \<le> 1"
  shows "relativePosition a b Right opts =
           Inr (box_x A \<ge> right B + or_default (gap opts) 0 + or_default (tolerance opts) 0 \<and>
                overlapRatio1D (box_y A) (bottom A) (box_y B) (bottom B)
                  + or_default (tolerance opts) 0 \<ge> or_default (overlapRatio opts) 0)"
  unfolding relativePosition_def gap_check_valid[OF assms(4)] overlapRatio_check_valid[OF assms(5)]
  by (auto simp add: assms(1,2,3) mapLogical_def ge_def Let_def)

text \<open>
  For \<open>left\<close> and \<open>above\<close> a larger tolerance keeps a positive answer positive.
\<close>

lemma relativePosition_left_tolerance_mono:
  assumes "relativePosition a b Left (opts\<lparr>tolerance := Some t\<rparr>) = Inr True"
    and "logical opts = None" and "t \<le> t'"
  shows "relativePosition a b Left (opts\<lparr>tolerance := Some t'\<rparr>) = Inr True"
  using assms
  by (auto simp: relativePosition_def mapLogical_def or_default_def le_def Let_def
      split: sum.splits option.splits)

lemma relativePosition_above_tolerance_mono:
  assumes "relativePosition a b Above (opts\<lparr>tolerance := Some t\<rparr>) = Inr True"
    and "t \<le> t'"
  shows "relativePosition a b Above (opts\<lparr>tolerance := Some t'\<rparr>) = Inr True"
  using assms
  by (auto simp: relativePosition_def mapLogical_def or_default_def le_def Let_def
      split: sum.splits option.splits)

text \<open>
  Claim C2 says that a tolerance only relaxes \<open>relativePosition\<close>, for every direction,
  and that \<open>right\<close> holds whenever \<open>subject.x \<ge> right(reference) + gap - tolerance\<close>.
  The code does otherwise for \<open>right\<close> and \<open>below\<close>: a subject that touches the
  reference (\<open>subject.x = right(reference)\<close>, gap 0) is to its right with tolerance 0 and
  no longer with tolerance 1, and likewise for \<open>below\<close>.
\<close>

theorem relativePosition_right_below_tolerance_tightens:
  "relativePosition
     \<lparr>boundingBox = Some \<lparr>box_x = 100, box_y = 0, box_width = 10, box_height = 10\<rparr>,
      page = None, scrollIntoViewIfNeeded = None\<rparr>
     \<lparr>boundingBox = Some \<lparr>box_x = 0, box_y = 0, box_width = 100, box_height = 10\<rparr>,
      page = None, scrollIntoViewIfNeeded = None\<rparr>
     Right
     \<lparr>overlapRatio = None, gap = None, tolerance = Some 0, logical = None,
      writingDirection = None\<rparr> = Inr True \<and>
   relativePosition
     \<lparr>boundingBox = Some \<lparr>box_x = 100, box_y = 0, box_width = 10, box_height = 10\<rparr>,
      page = None, scrollIntoViewIfNeeded = None\<rparr>
     \<lparr>boundingBox = Some \<lparr>box_x = 0, box_y = 0, box_width = 100, box_height = 10\<rparr>,
      page = None, scrollIntoViewIfNeeded = None\<rparr>
     Right
     \<lparr>overlapRatio = None, gap = None, tolerance = Some 1, logical = None,
      writingDirection = None\<rparr> = Inr False \<and>
   relativePosition
     \<lparr>boundingBox = Some \<lparr>box_x = 0, box_y = 100, box_width = 10, box_height = 10\<rparr>,
      page = None, scrollIntoViewIfNeeded = None\<rparr>
     \<lparr>boundingBox = Some \<lparr>box_x = 0, box_y = 0, box_width = 10, box_height = 100\<rparr>,
      page = None, scrollIntoViewIfNeeded = None\<rparr>
     Below
     \<lparr>overlapRatio = None, gap = None, tolerance = Some 0, logical = None,
      writingDirection = None\<rparr> = Inr True \<and>
   relativePosition
     \<lparr>boundingBox = Some \<lparr>box_x = 0, box_y = 100, box_width = 10, box_height = 10\<rparr>,
      page = None, scrollIntoViewIfNeeded = None\<rparr>
     \<lparr>boundingBox = Some \<lparr>box_x = 0, box_y = 0, box_width = 10, box_height = 100\<rparr>,
      page = None, scrollIntoViewIfNeeded = None\<rparr>
     Below
     \<lparr>overlapRatio = None, gap = None, tolerance = Some 1, logical = None,
      writingDirection = None\<rparr> = Inr False"
  by (simp add: relativePosition_def mapLogical_def or_default_def ge_def right_def bottom_def
      overlapRatio1D_def overlapLen_def Let_def)

text \<open>
  Claim C6. For measured rectangles \<open>A\<close> and \<open>B\<close> with \<open>right A \<le> B.x\<close> and the default
  gap, tolerance and overlap ratio, \<open>relativePosition\<close> with direction \<open>left\<close>, logical
  \<open>start\<close> and writing direction \<open>ltr\<close> returns true, and the same call with writing
  direction \<open>rtl\<close> returns false. Of the non-degeneracy of the two rectangles the proof
  needs the positive widths only.
\<close>

theorem logical_start_ltr_true_rtl_false:
  assumes "boundingBox a = Some A" and "boundingBox b = Some B"
    and "0 < box_width A" and "0 < box_width B"
    and "right A \<le> box_x B"
  shows "relativePosition a b Left
           \<lparr>overlapRatio = None, gap = None, tolerance = None, logical = Some Start,
            writingDirection = Some Ltr\<rparr> = Inr True \<and>
         relativePosition a b Left
           \<lparr>overlapRatio = None, gap = None, tolerance = None, logical = Some Start,
            writingDirection = Some Rtl\<rparr> = Inr False"
proof -
  have ov: "0 \<le> overlapRatio1D (box_y A) (bottom A) (box_y B) (bottom B)"
    by (rule overlapRatio1D_nonneg)
  have ltr: "relativePosition a b Left
           \<lparr>overlapRatio = None, gap = None, tolerance = None, logical = Some Start,
            writingDirection = Some Ltr\<rparr> = Inr True"
    using assms(5) ov
    by (simp add: relativePosition_def assms(1,2) mapLogical_def or_default_def le_def Let_def)
  have "box_x A < right B"
    using assms(3,4,5) by (simp add: right_def)
  then have rtl: "relativePosition a b Left
           \<lparr>overlapRatio = None, gap = None, tolerance = None, logical = Some Start,
            writingDirection = Some Rtl\<rparr> = Inr False"
    by (simp add: relativePosition_def assms(1,2) mapLogical_def or_default_def ge_def Let_def)
  from ltr rtl show ?thesis by simp
qed

theorem logical_start_ltr_true_rtl_false_witness:
  "relativePosition
     \<lparr>boundingBox = Some \<lparr>box_x = 20, box_y = 40, box_width = 50, box_height = 30\<rparr>,
      page = None, scrollIntoViewIfNeeded = None\<rparr>
     \<lparr>boundingBox = Some \<lparr>box_x = 120, box_y = 40, box_width = 50, box_height = 30\<rparr>,
      page = None, scrollIntoViewIfNeeded = None\<rparr>
     Left
     \<lparr>overlapRatio = None, gap = None, tolerance = None, logical = Some Start,
      writingDirection = Some Ltr\<rparr> = Inr True \<and>
   relativePosition
     \<lparr>boundingBox = Some \<lparr>box_x = 20, box_y = 40, box_width = 50, box_height = 30\<rparr>,
      page = None, scrollIntoViewIfNeeded = None\<rparr>
     \<lparr>boundingBox = Some \<lparr>box_x = 120, box_y = 40, box_width = 50, box_height = 30\<rparr>,
      page = None, scrollIntoViewIfNeeded = None\<rparr>
     Left
     \<lparr>overlapRatio = None, gap = None, tolerance = None, logical = Some Start,
      writingDirection = Some Rtl\<rparr> = Inr False"
  using logical_start_ltr_true_rtl_false
    [of "\<lparr>boundingBox = Some \<lparr>box_x = 20, box_y = 40, box_width = 50, box_height = 30\<rparr>,
          page = None, scrollIntoViewIfNeeded = None\<rparr>"
        "\<lparr>box_x = 20, box_y = 40, box_width = 50, box_height = 30\<rparr>"
        "\<lparr>boundingBox = Some \<lparr>box_x = 120, box_y = 40, box_width = 50, box_height = 30\<rparr>,
          page = None, scrollIntoViewIfNeeded = None\<rparr>"
        "\<lparr>box_x = 120, box_y = 40, box_width = 50, box_height = 30\<rparr>"]
  by (simp add: right_def)

text \<open>
  Claim C10. When \<open>logical\<close> is set, \<open>relativePosition\<close> gives the same result (value or
  error) for the directions \<open>left\<close> and \<open>right\<close>: the physical direction they resolve to
  is the same, and it is fixed by \<open>logical\<close> and \<open>writingDirection\<close> alone; \<open>above\<close> and
  \<open>below\<close> are passed through unchanged.
\<close>

theorem logical_ignores_horizontal_direction:
  assumes "logical opts \<noteq> None"
  shows "relativePosition a b Left opts = relativePosition a b Right opts \<and>
         mapLogical Left opts = mapLogical Right opts \<and>
         (logical opts' = logical opts \<and> writingDirection opts' = writingDirection opts
            \<longrightarrow> mapLogical Left opts' = mapLogical Left opts) \<and>
         mapLogical Above opts = Above \<and> mapLogical Below opts = Below"
proof -
  have h: "mapLogical Left opts = mapLogical Right opts"
    using assms by (rule mapLogical_horizontal)
  have r: "relativePosition a b Left opts = relativePosition a b Right opts"
    unfolding relativePosition_def h by (rule refl)
  have d: "logical opts' = logical opts \<and> writingDirection opts' = writingDirection opts
            \<longrightarrow> mapLogical Left opts' = mapLogical Left opts"
    by (simp add: mapLogical_def Let_def split: option.splits)
  from h r d show ?thesis by (simp add: mapLogical_vertical)
qed

theorem logical_ignores_horizontal_direction_witness:
  "relativePosition
     \<lparr>boundingBox = Some \<lparr>box_x = 20, box_y = 40, box_width = 50, box_height = 30\<rparr>,
      page = None, scrollIntoViewIfNeeded = None\<rparr>
     \<lparr>boundingBox = Some \<lparr>box_x = 120, box_y = 40, box_width = 50, box_height = 30\<rparr>,
      page = None, scrollIntoViewIfNeeded = None\<rparr>
     Left
     \<lparr>overlapRatio = None, gap = None, tolerance = None, logical = Some End,
      writingDirection = Some Rtl\<rparr> =
   relativePosition
     \<lparr>boundingBox = Some \<lparr>box_x = 20, box_y = 40, box_width = 50, box_height = 30\<rparr>,
      page = None, scrollIntoViewIfNeeded = None\<rparr>
     \<lparr>boundingBox = Some \<lparr>box_x = 120, box_y = 40, box_width = 50, box_height = 30\<rparr>,
      page = None, scrollIntoViewIfNeeded = None\<rparr>
     Right
     \<lparr>overlapRatio = None, gap = None, tolerance = None, logical = Some End,
      writingDirection = Some Rtl\<rparr> \<and>
   mapLogical Left
     \<lparr>overlapRatio = None, gap = None, tolerance = None, logical = Some End,
      writingDirection = Some Rtl\<rparr> = Left \<and>
   mapLogical Right
     \<lparr>overlapRatio = None, gap = None, tolerance = None, logical = Some End,
      writingDirection = Some Rtl\<rparr> = Left \<and>
   mapLogical Left
     \<lparr>overlapRatio = Some 1, gap = Some 3, tolerance = None, logical = Some End,
      writingDirection = Some Rtl\<rparr> = Left"
  using logical_ignores_horizontal_direction
    [where opts = "\<lparr>overlapRatio = None, gap = None, tolerance = None, logical = Some End,
          writingDirection = Some Rtl\<rparr>"
       and opts' = "\<lparr>overlapRatio = Some 1, gap = Some 3, tolerance = None,
          logical = Some End, writingDirection = Some Rtl\<rparr>"
       and a = "\<lparr>boundingBox = Some \<lparr>box_x = 20, box_y = 40, box_width = 50, box_height = 30\<rparr>,
          page = None, scrollIntoViewIfNeeded = None\<rparr>"
       and b = "\<lparr>boundingBox = Some \<lparr>box_x = 120, box_y = 40, box_width = 50, box_height = 30\<rparr>,
          page = None, scrollIntoViewIfNeeded = None\<rparr>"]
  by (simp add: mapLogical_def or_default_def)

text \<open>A negative \<open>gap\<close> is refused by \<open>relativePosition\<close> whatever the measurements are.\<close>

lemma relativePosition_negative_gap:
  "gap opts = Some g \<Longrightarrow> g < 0 \<Longrightarrow>
   relativePosition a b d opts = Inl (NotNonNegative ''gap'' g)"
  by (simp add: relativePosition_def assertNonNegative_def)

section \<open>Viewport visibility\<close>

text \<open>
  Without a box or without a viewport \<open>isInViewport\<close> answers false, whatever the options
  are: the option checks come after both measurements.
\<close>

lemma isInViewport_unmeasured:
  "boundingBox l = None \<or> viewport_of l = None \<Longrightarrow> isInViewport l opts = Inr False"
  by (auto simp: isInViewport_def Let_def split: option.splits)

text \<open>
  Claim C3 says that \<open>isInViewport\<close> raises a usage error for a negative \<open>padding\<close>, and
  for a \<open>threshold\<close> outside \<open>[0, 1]\<close> when \<open>fullyVisible\<close> is false, before any
  measurement and also when the rectangle or the viewport is absent. The code measures
  first: with no rectangle and \<open>padding = -1\<close>, and with no viewport and \<open>threshold = 2\<close>,
  it returns false; the error is raised only once both measurements are there.
\<close>

theorem isInViewport_invalid_options_not_raised:
  "isInViewport
     \<lparr>boundingBox = None, page = Some \<lparr>viewportSize = Some \<lparr>vp_width = 800, vp_height = 600\<rparr>\<rparr>,
      scrollIntoViewIfNeeded = None\<rparr>
     \<lparr>fullyVisible = None, threshold = None, padding = Some (- 1), scrollIntoView = None\<rparr>
   = Inr False \<and>
   isInViewport
     \<lparr>boundingBox = Some \<lparr>box_x = 0, box_y = 0, box_width = 120, box_height = 80\<rparr>,
      page = None, scrollIntoViewIfNeeded = None\<rparr>
     \<lparr>fullyVisible = Some False, threshold = Some 2, padding = None, scrollIntoView = None\<rparr>
   = Inr False \<and>
   isInViewport
     \<lparr>boundingBox = Some \<lparr>box_x = 0, box_y = 0, box_width = 120, box_height = 80\<rparr>,
      page = Some \<lparr>viewportSize = Some \<lparr>vp_width = 800, vp_height = 600\<rparr>\<rparr>,
      scrollIntoViewIfNeeded = None\<rparr>
     \<lparr>fullyVisible = None, threshold = None, padding = Some (- 1), scrollIntoView = None\<rparr>
   = Inl (NotNonNegative ''padding'' (- 1))"
  by (simp add: isInViewport_def or_default_def viewport_of_def area_def assertNonNegative_def
      Let_def)

text \<open>
  Claim C7, amended. For every element and every viewport whose width or height is at most
  10000, \<open>isInViewport\<close> with \<open>padding = 5000\<close> and no other option returns false: one
  dimension of the padded viewport is not positive. A missing viewport gives false as
  well.
\<close>

theorem isInViewport_padding_5000:
  assumes "\<forall>vp. viewport_of l = Some vp \<longrightarrow> vp_width vp \<le> 10000 \<or> vp_height vp \<le> 10000"
  shows "isInViewport l
           \<lparr>fullyVisible = None, threshold = None, padding = Some 5000, scrollIntoView = None\<rparr>
         = Inr False"
  using assms
  by (auto simp: isInViewport_def or_default_def assertNonNegative_def assertRatio01_def Let_def
      split: option.splits)

theorem isInViewport_padding_5000_witness:
  "isInViewport
     \<lparr>boundingBox = Some \<lparr>box_x = 0, box_y = 0, box_width = 120, box_height = 80\<rparr>,
      page = Some \<lparr>viewportSize = Some \<lparr>vp_width = 800, vp_height = 600\<rparr>\<rparr>,
      scrollIntoViewIfNeeded = None\<rparr>
     \<lparr>fullyVisible = None, threshold = None, padding = Some 5000, scrollIntoView = None\<rparr>
   = Inr False"
  using isInViewport_padding_5000
    [of "\<lparr>boundingBox = Some \<lparr>box_x = 0, box_y = 0, box_width = 120, box_height = 80\<rparr>,
          page = Some \<lparr>viewportSize = Some \<lparr>vp_width = 800, vp_height = 600\<rparr>\<rparr>,
          scrollIntoViewIfNeeded = None\<rparr>"]
  by (simp add: viewport_of_def)

text \<open>
  In a viewport of 20000 by 20000 the padded viewport is 10000 by 10000, and an element
  inside it is in the viewport under \<open>padding = 5000\<close>.
\<close>

theorem isInViewport_padding_5000_counterexample:
  "isInViewport
     \<lparr>boundingBox = Some \<lparr>box_x = 5000, box_y = 5000, box_width = 10, box_height = 10\<rparr>,
      page = Some \<lparr>viewportSize = Some \<lparr>vp_width = 20000, vp_height = 20000\<rparr>\<rparr>,
      scrollIntoViewIfNeeded = None\<rparr>
     \<lparr>fullyVisible = None, threshold = None, padding = Some 5000, scrollIntoView = None\<rparr>
   = Inr True"
  by (simp add: isInViewport_def or_default_def area_def viewport_of_def assertNonNegative_def
      assertRatio01_def clampVisible_def right_def bottom_def Let_def)

section \<open>Reading order\<close>

text \<open>
  What the code computes for \<open>rightToLeft\<close> and \<open>leftToRight\<close> when every box is
  measured. The tolerance widens the test of \<open>leftToRight\<close> and narrows the test of
  \<open>rightToLeft\<close>, where it is passed negated to \<open>ge\<close>.
\<close>

lemma inOrder_rightToLeft_code:
  assumes "map boundingBox ls = map Some bs"
  shows "inOrder ls RightToLeft (Some tol) =
           (\<forall>i. Suc i < length bs \<longrightarrow> box_x (bs ! i) \<ge> right (bs ! Suc i) + tol)"
  by (auto simp add: inOrder_def assms measured_map_Some adjacent_ok_iff ge_def or_default_def)

lemma inOrder_leftToRight_code:
  assumes "map boundingBox ls = map Some bs"
  shows "inOrder ls LeftToRight (Some tol) =
           (\<forall>i. Suc i < length bs \<longrightarrow> right (bs ! i) \<le> box_x (bs ! Suc i) + tol)"
  by (auto simp add: inOrder_def assms measured_map_Some adjacent_ok_iff le_def or_default_def)

text \<open>
  Claim C4 says that \<open>inOrder\<close> with \<open>rightToLeft\<close> is true if and only if every pair of
  neighbours satisfies \<open>prev.x \<ge> right(next) - tolerance\<close>. The code does otherwise: for
  \<open>prev.x = 10\<close>, \<open>right(next) = 11\<close> and tolerance 1 the pair satisfies that inequality,
  and \<open>inOrder\<close> returns false.
\<close>

theorem inOrder_rightToLeft_tolerance_tightens:
  "inOrder
     [\<lparr>boundingBox = Some \<lparr>box_x = 10, box_y = 0, box_width = 10, box_height = 10\<rparr>,
       page = None, scrollIntoViewIfNeeded = None\<rparr>,
      \<lparr>boundingBox = Some \<lparr>box_x = 0, box_y = 0, box_width = 11, box_height = 10\<rparr>,
       page = None, scrollIntoViewIfNeeded = None\<rparr>]
     RightToLeft (Some 1) = False \<and>
   box_x \<lparr>box_x = 10, box_y = 0, box_width = 10, box_height = 10\<rparr>
     \<ge> right \<lparr>box_x = 0, box_y = 0, box_width = 11, box_height = 10\<rparr> - 1"
  by (simp add: inOrder_def or_default_def ge_def right_def)

section \<open>Absent measurements\<close>

lemma visibleAreaRatio_unmeasured:
  "boundingBox l = None \<or> viewport_of l = None \<Longrightarrow> visibleAreaRatio l = 0"
  by (auto simp: visibleAreaRatio_def split: option.splits)

lemma relativePosition_unmeasured:
  assumes "boundingBox a = None \<or> boundingBox b = None"
    and "\<forall>g. gap opts = Some g \<longrightarrow> 0 \<le> g"
    and "\<forall>r. overlapRatio opts = Some r \<longrightarrow> 0 \<le> r \<and> r \<le> 1"
  shows "relativePosition a b d opts = Inr False"
  unfolding relativePosition_def gap_check_valid[OF assms(2)] overlapRatio_check_valid[OF assms(3)]
  using assms(1) by (auto simp: Let_def split: option.splits)

lemma areAligned_unmeasured:
  "boundingBox a = None \<or> boundingBox b = None \<Longrightarrow> areAligned a b ao = False"
  by (auto simp: areAligned_def Let_def split: option.splits)

lemma edgeDistance_unmeasured:
  "boundingBox a = None \<or> boundingBox b = None \<Longrightarrow> edgeDistance a b d = None"
  by (auto simp: edgeDistance_def split: option.splits)

lemma intersectionAreaRatio_unmeasured:
  "boundingBox a = None \<or> boundingBox b = None \<Longrightarrow> intersectionAreaRatio a b = 0"
  by (auto simp: intersectionAreaRatio_def split: option.splits)

lemma inOrder_unmeasured:
  "\<exists>l \<in> set ls. boundingBox l = None \<Longrightarrow> inOrder ls ord tol = False"
proof -
  assume "\<exists>l \<in> set ls. boundingBox l = None"
  then have "None \<in> set (map boundingBox ls)"
    by (metis image_eqI set_map)
  then have "measured (map boundingBox ls) = None"
    by (simp only: measured_None_iff)
  then show ?thesis
    by (simp add: inOrder_def)
qed

text \<open>
  Claim C5. With valid options, a missing rectangle or a missing viewport makes every public
  operation return its negative value and raise nothing: false for \<open>isInViewport\<close>,
  \<open>relativePosition\<close>, \<open>areAligned\<close> and \<open>inOrder\<close>, 0 for \<open>visibleAreaRatio\<close> and
  \<open>intersectionAreaRatio\<close>, \<open>null\<close> for \<open>edgeDistance\<close>. Only \<open>relativePosition\<close> needs
  the validity of its options (\<open>gap\<close> not negative, \<open>overlapRatio\<close> in \<open>[0, 1]\<close>) for
  this.
\<close>

theorem absence_gives_negative_value:
  "(boundingBox l = None \<or> viewport_of l = None \<longrightarrow>
      isInViewport l vo = Inr False \<and> visibleAreaRatio l = 0) \<and>
   (boundingBox a = None \<or> boundingBox b = None \<longrightarrow>
      ((\<forall>g. gap ro = Some g \<longrightarrow> 0 \<le> g) \<and>
       (\<forall>r. overlapRatio ro = Some r \<longrightarrow> 0 \<le> r \<and> r \<le> 1) \<longrightarrow>
         relativePosition a b d ro = Inr False) \<and>
      areAligned a b ao = False \<and>
      edgeDistance a b d = None \<and>
      intersectionAreaRatio a b = 0) \<and>
   ((\<exists>e \<in> set ls. boundingBox e = None) \<longrightarrow> inOrder ls ord tol = False)"
  using isInViewport_unmeasured[of l vo] visibleAreaRatio_unmeasured[of l]
    relativePosition_unmeasured[of a b ro d] areAligned_unmeasured[of a b ao]
    edgeDistance_unmeasured[of a b d] intersectionAreaRatio_unmeasured[of a b]
    inOrder_unmeasured[of ls ord tol]
  by blast

theorem absence_gives_negative_value_witness:
  "isInViewport
     \<lparr>boundingBox = None,
      page = Some \<lparr>viewportSize = Some \<lparr>vp_width = 800, vp_height = 600\<rparr>\<rparr>,
      scrollIntoViewIfNeeded = None\<rparr>
     \<lparr>fullyVisible = None, threshold = Some (1 / 2), padding = Some 8, scrollIntoView = None\<rparr>
     = Inr False \<and>
   visibleAreaRatio
     \<lparr>boundingBox = None,
      page = Some \<lparr>viewportSize = Some \<lparr>vp_width = 800, vp_height = 600\<rparr>\<rparr>,
      scrollIntoViewIfNeeded = None\<rparr> = 0 \<and>
   relativePosition
     \<lparr>boundingBox = Some \<lparr>box_x = 20, box_y = 40, box_width = 50, box_height = 30\<rparr>,
      page = None, scrollIntoViewIfNeeded = None\<rparr>
     \<lparr>boundingBox = None, page = None, scrollIntoViewIfNeeded = None\<rparr>
     Above
     \<lparr>overlapRatio = Some 1, gap = Some 10, tolerance = None, logical = None,
      writingDirection = None\<rparr> = Inr False \<and>
   areAligned
     \<lparr>boundingBox = Some \<lparr>box_x = 20, box_y = 40, box_width = 50, box_height = 30\<rparr>,
      page = None, scrollIntoViewIfNeeded = None\<rparr>
     \<lparr>boundingBox = None, page = None, scrollIntoViewIfNeeded = None\<rparr>
     \<lparr>axis = AxisX, mode = Edges, align_tolerance = Some 2\<rparr> = False \<and>
   edgeDistance
     \<lparr>boundingBox = Some \<lparr>box_x = 20, box_y = 40, box_width = 50, box_height = 30\<rparr>,
      page = None, scrollIntoViewIfNeeded = None\<rparr>
     \<lparr>boundingBox = None, page = None, scrollIntoViewIfNeeded = None\<rparr>
     Above = None \<and>
   intersectionAreaRatio
     \<lparr>boundingBox = Some \<lparr>box_x = 20, box_y = 40, box_width = 50, box_height = 30\<rparr>,
      page = None, scrollIntoViewIfNeeded = None\<rparr>
     \<lparr>boundingBox = None, page = None, scrollIntoViewIfNeeded = None\<rparr> = 0 \<and>
   inOrder
     [\<lparr>boundingBox = Some \<lparr>box_x = 20, box_y = 40, box_width = 50, box_height = 30\<rparr>,
       page = None, scrollIntoViewIfNeeded = None\<rparr>,
      \<lparr>boundingBox = None, page = None, scrollIntoViewIfNeeded = None\<rparr>]
     LeftToRight (Some 1) = False"
  using absence_gives_negative_value
    [where l = "\<lparr>boundingBox = None,
          page = Some \<lparr>viewportSize = Some \<lparr>vp_width = 800, vp_height = 600\<rparr>\<rparr>,
          scrollIntoViewIfNeeded = None\<rparr>"
       and vo = "\<lparr>fullyVisible = None, threshold = Some (1 / 2), padding = Some 8,
          scrollIntoView = None\<rparr>"
       and a = "\<lparr>boundingBox = Some \<lparr>box_x = 20, box_y = 40, box_width = 50, box_height = 30\<rparr>,
          page = None, scrollIntoViewIfNeeded = None\<rparr>"
       and b = "\<lparr>boundingBox = None, page = None, scrollIntoViewIfNeeded = None\<rparr>"
       and d = Above
       and ro = "\<lparr>overlapRatio = Some 1, gap = Some 10, tolerance = None, logical = None,
          writingDirection = None\<rparr>"
       and ao = "\<lparr>axis = AxisX, mode = Edges, align_tolerance = Some 2\<rparr>"
       and ls = "[\<lparr>boundingBox = Some \<lparr>box_x = 20, box_y = 40, box_width = 50, box_height = 30\<rparr>,
           page = None, scrollIntoViewIfNeeded = None\<rparr>,
          \<lparr>boundingBox = None, page = None, scrollIntoViewIfNeeded = None\<rparr>]"
       and ord = LeftToRight and tol = "Some 1"]
  by simp

section \<open>Clamping twice in binary64\<close>

text \<open>Rounding: the exponent is the right one, and integers up to \<open>2^53\<close> are exact.\<close>

lemma pow2_pos: "0 < pow2 k"
  by (simp add: pow2_def)

lemma binade_bounds:
  assumes "0 < a"
  shows "pow2 (binade a) \<le> a \<and> a < pow2 (binade a + 1)"
proof (cases "1 \<le> a")
  case True
  define n where "n = \<lfloor>a\<rfloor>"
  define b where "b = bitlen n"
  have n1: "1 \<le> n" using True by (simp add: n_def le_floor_iff)
  then have pos: "0 < n" by simp
  have b1: "1 \<le> b"
    using pos bitlen_eq_zero_iff[of n] bitlen_nonneg[of n] unfolding b_def by linarith
  have lo: "2 ^ nat (b - 1) \<le> n" and hi: "n < 2 ^ nat b"
    using bitlen_bounds[OF pos] by (simp_all add: b_def)
  have "real_of_int (2 ^ nat (b - 1)) \<le> of_int n" using lo by (simp only: of_int_le_iff)
  also have "\<dots> \<le> a" by (simp add: n_def)
  finally have l: "2 ^ nat (b - 1) \<le> a" by simp
  have "n + 1 \<le> 2 ^ nat b" using hi by simp
  then have "real_of_int (n + 1) \<le> of_int (2 ^ nat b)" by (simp only: of_int_le_iff)
  moreover have "a < of_int (n + 1)" by (simp add: n_def)
  ultimately have h: "a < 2 ^ nat b" by simp
  have "binade a = b - 1" using True by (simp add: binade_def b_def n_def)
  then show ?thesis using l h b1 by (simp add: pow2_def)
next
  case False
  define m where "m = \<lceil>1 / a\<rceil> - 1"
  define b where "b = bitlen m"
  have t: "1 < 1 / a" using False assms by simp
  have "1 < \<lceil>1 / a\<rceil>" using t by (simp add: less_ceiling_iff)
  then have pos: "0 < m" by (simp add: m_def)
  have b1: "1 \<le> b"
    using pos bitlen_eq_zero_iff[of m] bitlen_nonneg[of m] unfolding b_def by linarith
  have lo: "2 ^ nat (b - 1) \<le> m" and hi: "m < 2 ^ nat b"
    using bitlen_bounds[OF pos] by (simp_all add: b_def)
  have mt: "of_int m < 1 / a"
    using ceiling_correct[of "1 / a"] by (simp add: m_def)
  have tm: "1 / a \<le> of_int m + 1"
    unfolding m_def by (simp add: le_of_int_ceiling)
  have "m + 1 \<le> 2 ^ nat b" using hi by simp
  then have "real_of_int (m + 1) \<le> of_int (2 ^ nat b)" by (simp only: of_int_le_iff)
  with tm have "1 / a \<le> 2 ^ nat b" by simp
  then have l: "1 / 2 ^ nat b \<le> a"
    using assms by (simp add: field_simps)
  have "real_of_int (2 ^ nat (b - 1)) \<le> of_int m" using lo by (simp only: of_int_le_iff)
  then have "(2::real) ^ nat (b - 1) \<le> of_int m" by simp
  with mt have "2 ^ nat (b - 1) < 1 / a" by linarith
  then have h: "a < 1 / 2 ^ nat (b - 1)"
    using assms by (simp add: field_simps)
  have e: "binade a = - b" using False by (simp add: binade_def b_def m_def)
  show ?thesis
  proof (cases "b = 1")
    case True
    then show ?thesis using l h e by (simp add: pow2_def)
  next
    case False
    with b1 have "1 < b" by simp
    moreover from this have "nat (b - 1) = nat (- (1 - b))" by simp
    ultimately show ?thesis using l h e by (simp add: pow2_def)
  qed
qed

lemma round_even_nonpos: "t \<le> 0 \<Longrightarrow> round_even t \<le> 0"
proof -
  assume t: "t \<le> 0"
  have f: "\<lfloor>t\<rfloor> \<le> 0" using t by (simp add: floor_le_zero)
  show ?thesis
  proof (cases "\<lfloor>t\<rfloor> = 0")
    case True
    then have "0 \<le> t" by (metis of_int_0 of_int_floor_le)
    with t have "t = 0" by simp
    then show ?thesis by (simp add: round_even_def)
  next
    case False
    with f have "\<lfloor>t\<rfloor> + 1 \<le> 0" by linarith
    with f show ?thesis unfolding round_even_def Let_def by presburger
  qed
qed

lemma round_even_of_int: "round_even (of_int m) = m"
  by (simp add: round_even_def)

lemma representable_0: "representable 0"
  by (simp add: representable_def fl64_def)

lemma fl64_of_int:
  assumes "\<bar>n\<bar> \<le> 2 ^ 53"
  shows "fl64 (of_int n) = Finite (of_int n)"
proof (cases "n = 0")
  case True
  then show ?thesis by (simp add: fl64_def)
next
  case False
  define b where "b = bitlen \<bar>n\<bar>"
  have pos: "0 < \<bar>n\<bar>" using False by simp
  have lo: "2 ^ nat (b - 1) \<le> \<bar>n\<bar>"
    using bitlen_bounds[OF pos] by (simp add: b_def)
  have b1: "1 \<le> b"
    using pos bitlen_eq_zero_iff[of "\<bar>n\<bar>"] bitlen_nonneg[of "\<bar>n\<bar>"]
    unfolding b_def by linarith
  have "(2::int) ^ nat (b - 1) \<le> 2 ^ 53" using lo assms by linarith
  then have "nat (b - 1) \<le> 53"
    using power_le_imp_le_exp[of "2::int" "nat (b - 1)" 53] by simp
  then have b54: "b \<le> 54" by linarith
  have bin: "binade \<bar>of_int n\<bar> = b - 1"
  proof -
    have "(1::real) \<le> \<bar>of_int n\<bar>" using False by (simp add: of_int_abs[symmetric] del: of_int_abs)
    moreover have "\<lfloor>\<bar>real_of_int n\<bar>\<rfloor> = \<bar>n\<bar>" by (simp add: of_int_abs[symmetric] del: of_int_abs)
    ultimately show ?thesis by (simp add: binade_def b_def)
  qed
  have e: "max (binade \<bar>of_int n\<bar>) (- 1022) = b - 1" using bin b1 by simp
  have nz: "real_of_int n \<noteq> 0" using False by simp
  have bound: "\<bar>real_of_int n\<bar> < 2 ^ 1024"
  proof -
    have "\<bar>real_of_int n\<bar> \<le> 2 ^ 53" using assms
      by (metis of_int_abs of_int_le_iff of_int_numeral of_int_power)
    also have "\<dots> < (2::real) ^ 1024" by simp
    finally show ?thesis .
  qed
  have v: "of_int (round_even (of_int n / pow2 (b - 53))) * pow2 (b - 53) = real_of_int n"
  proof (cases "b \<le> 53")
    case True
    define k where "k = nat (53 - b)"
    have q: "pow2 (b - 53) = 1 / 2 ^ k"
    proof (cases "b = 53")
      case True
      then show ?thesis by (simp add: pow2_def k_def)
    next
      case False
      with \<open>b \<le> 53\<close> have "b - 53 < 0" by simp
      then show ?thesis by (simp add: pow2_def k_def)
    qed
    have "real_of_int n / pow2 (b - 53) = of_int (n * 2 ^ k)" by (simp add: q)
    then have "round_even (real_of_int n / pow2 (b - 53)) = n * 2 ^ k"
      by (simp only: round_even_of_int)
    then show ?thesis by (simp add: q)
  next
    case False
    with b54 have b: "b = 54" by simp
    then have "(2::int) ^ 53 \<le> \<bar>n\<bar>" using lo by simp
    with assms have "\<bar>n\<bar> = 2 ^ 53" by simp
    then have "n = 2 ^ 53 \<or> n = - (2 ^ 53)" by linarith
    then show ?thesis
      by (auto simp: b pow2_def round_even_def)
  qed
  have eq: "b - 1 - 52 = b - 53" by simp
  show ?thesis
    using bound nz unfolding fl64_def e Let_def eq v by (simp add: abs_less_iff)
qed


lemma representable_of_int: "\<bar>n\<bar> \<le> 2 ^ 53 \<Longrightarrow> representable (of_int n)"
  by (simp add: representable_def fl64_of_int)

text \<open>A difference that is not positive is clamped to 0 also after rounding.\<close>

lemma fl64_nonpos: "r \<le> 0 \<Longrightarrow> max64 (Finite 0) (fl64 r) = Finite 0"
proof -
  assume r: "r \<le> 0"
  define q where "q = pow2 (max (binade \<bar>r\<bar>) (- 1022) - 52)"
  have "r / q \<le> 0" using r pow2_pos[of "max (binade \<bar>r\<bar>) (- 1022) - 52"]
    by (simp add: q_def divide_nonpos_pos)
  then have "round_even (r / q) \<le> 0" by (rule round_even_nonpos)
  then have "of_int (round_even (r / q)) * q \<le> 0"
    using pow2_pos[of "max (binade \<bar>r\<bar>) (- 1022) - 52"]
    by (simp add: q_def mult_nonpos_nonneg)
  then show ?thesis
    by (simp add: fl64_def Let_def q_def[symmetric])
qed

text \<open>
  One axis of the second clamping: when the sum and the difference of the first clamping
  are exact, the second clamping finds the same width.
\<close>

lemma axis_exact:
  assumes "representable w" and "representable x"
    and "representable (x + wd)"
    and "representable (min (x + wd) (max 0 w) - max 0 x)"
  shows "max64 (Finite 0)
           (sub64 (min64 (fl64 (max 0 x + max 0 (min (x + wd) (max 0 w) - max 0 x)))
                         (Finite (max 0 w)))
                  (Finite (max 0 x)))
         = Finite (max 0 (min (x + wd) (max 0 w) - max 0 x))"
proof -
  define x1 where "x1 = max 0 x"
  define x2 where "x2 = min (x + wd) (max 0 w)"
  have r1: "fl64 x1 = Finite x1"
    using assms(2) representable_0 by (simp add: x1_def max_def representable_def)
  have r2: "fl64 x2 = Finite x2"
    using assms(1,3) representable_0 by (simp add: x2_def max_def min_def representable_def)
  have d: "fl64 (x2 - x1) = Finite (x2 - x1)"
    using assms(4) by (simp add: x1_def x2_def representable_def)
  have le: "x2 \<le> max 0 w" by (simp add: x2_def)
  have goal: "max64 (Finite 0)
           (sub64 (min64 (fl64 (x1 + max 0 (x2 - x1))) (Finite (max 0 w))) (Finite x1))
         = Finite (max 0 (x2 - x1))"
  proof (cases "x1 \<le> x2")
    case True
    then have "x1 + max 0 (x2 - x1) = x2" by simp
    moreover have "min x2 (max 0 w) = x2" using le by simp
    ultimately show ?thesis by (simp add: r2 d)
  next
    case False
    then have s: "x1 + max 0 (x2 - x1) = x1" by simp
    have neg: "min x1 (max 0 w) - x1 \<le> 0" by simp
    from False have z: "max 0 (x2 - x1) = 0" by simp
    show ?thesis
      unfolding s z using fl64_nonpos[OF neg] by (simp add: r1)
  qed
  then show ?thesis by (simp only: x1_def x2_def)
qed

lemma clampVisible64_first_pass:
  assumes "representable (x + wd)" and "representable (y + ht)"
    and "representable (min (x + wd) (max 0 w) - max 0 x)"
    and "representable (min (y + ht) (max 0 h) - max 0 y)"
  shows "clampVisible64 (Finite w) (Finite h)
             \<lparr>box64_x = Finite x, box64_y = Finite y,
              box64_width = Finite wd, box64_height = Finite ht\<rparr>
        = \<lparr>box64_x = Finite (max 0 x), box64_y = Finite (max 0 y),
           box64_width = Finite (max 0 (min (x + wd) (max 0 w) - max 0 x)),
           box64_height = Finite (max 0 (min (y + ht) (max 0 h) - max 0 y))\<rparr>"
  using assms
  by (simp add: clampVisible64_def right64_def bottom64_def representable_def Let_def)




text \<open>
  Integers of magnitude up to \<open>2^51\<close> are a case without rounding: on them clamping is
  idempotent.
\<close>

lemma clampVisible64_idempotent_on_integers:
  fixes w h x y wd ht :: int
  assumes "\<bar>w\<bar> \<le> 2 ^ 51" and "\<bar>h\<bar> \<le> 2 ^ 51"
    and "\<bar>x\<bar> \<le> 2 ^ 51" and "\<bar>y\<bar> \<le> 2 ^ 51"
    and "\<bar>wd\<bar> \<le> 2 ^ 51" and "\<bar>ht\<bar> \<le> 2 ^ 51"
  shows "clampVisible64 (Finite (of_int w)) (Finite (of_int h))
           (clampVisible64 (Finite (of_int w)) (Finite (of_int h))
              \<lparr>box64_x = Finite (of_int x), box64_y = Finite (of_int y),
               box64_width = Finite (of_int wd), box64_height = Finite (of_int ht)\<rparr>)
         = clampVisible64 (Finite (of_int w)) (Finite (of_int h))
             \<lparr>box64_x = Finite (of_int x), box64_y = Finite (of_int y),
              box64_width = Finite (of_int wd), box64_height = Finite (of_int ht)\<rparr>"
proof -
  have axis: "representable (of_int v) \<and> representable (of_int p) \<and>
              representable (of_int p + of_int s) \<and>
              representable (min (of_int p + of_int s) (max 0 (of_int v)) - max 0 (of_int p))"
    if "\<bar>v\<bar> \<le> 2 ^ 51" and "\<bar>p\<bar> \<le> 2 ^ 51" and "\<bar>s\<bar> \<le> 2 ^ 51" for v p s :: int
  proof -
    have "representable (of_int (p + s))"
      using that by (intro representable_of_int) simp
    moreover have "representable (of_int (min (p + s) (max 0 v) - max 0 p))"
      using that by (intro representable_of_int) simp
    moreover have "representable (of_int v)" "representable (of_int p)"
      using that by (auto intro!: representable_of_int)
    ultimately show ?thesis
      by (simp add: of_int_min of_int_max)
  qed
  note ax = axis[OF assms(1,3,5)] and ay = axis[OF assms(2,4,6)]
  have f: "clampVisible64 (Finite (of_int w)) (Finite (of_int h))
             \<lparr>box64_x = Finite (of_int x), box64_y = Finite (of_int y),
              box64_width = Finite (of_int wd), box64_height = Finite (of_int ht)\<rparr>
        = \<lparr>box64_x = Finite (max 0 (of_int x)), box64_y = Finite (max 0 (of_int y)),
           box64_width = Finite (max 0 (min (of_int x + of_int wd) (max 0 (of_int w))
                                        - max 0 (of_int x))),
           box64_height = Finite (max 0 (min (of_int y + of_int ht) (max 0 (of_int h))
                                         - max 0 (of_int y)))\<rparr>"
    using ax ay by (intro clampVisible64_first_pass) simp_all
  show ?thesis
    unfolding f using ax ay
    by (simp add: clampVisible64_def right64_def bottom64_def Let_def axis_exact)
qed

end
